theory Spec2Isabelle
  imports Complex_Main "HOL-Library.Monad_Syntax"
begin

section \<open>Python numbers and strings\<close>

text \<open>
  The pricing module and the fee split compute on Python \<^verbatim>\<open>float\<close> and \<^verbatim>\<open>int\<close>
  values. They are modelled as exact rationals: every decimal literal of the source
  (\<^verbatim>\<open>0.02\<close>, \<^verbatim>\<open>1.15\<close>, ...) is the rational it denotes, and \<open>+\<close>, \<open>-\<close>, \<open>*\<close> are exact.
  Binary rounding error, overflow, infinities and NaN of IEEE doubles are outside this
  model.

  \<^verbatim>\<open>round(x, ndigits)\<close> rounds to the nearest multiple of \<open>10 ^ (- ndigits)\<close>, a tie
  going to the even multiple.
\<close>

definition round_half_even :: "rat \<Rightarrow> int" where
  "round_half_even x =
     (let f = \<lfloor>x\<rfloor>; d = x - of_int f
      in if d < 1 / 2 then f
         else if 1 / 2 < d then f + 1
         else if even f then f else f + 1)"

definition py_round :: "rat \<Rightarrow> int \<Rightarrow> rat" where
  "py_round x ndigits =
     (if 0 \<le> ndigits
      then of_int (round_half_even (x * 10 ^ nat ndigits)) / 10 ^ nat ndigits
      else of_int (round_half_even (x / 10 ^ nat (- ndigits))) * 10 ^ nat (- ndigits))"

text \<open>
  A Python \<^verbatim>\<open>str\<close> is a sequence of Unicode code points; \<^verbatim>\<open>len\<close> counts code points.
  The descriptions handled here are Russian text, so a string is a list of code point
  numbers. \<open>ascii\<close> embeds an ASCII literal.
\<close>

type_synonym pystr = "nat list"

definition ascii :: "string \<Rightarrow> pystr" where
  "ascii s = map of_char s"

text \<open>
  \<^verbatim>\<open>str.lower()\<close> on the Basic Latin and the Cyrillic capital letters
  (U+0041..U+005A, U+0410..U+042F, U+0400..U+040F); every other code point is
  left as it is.
\<close>

definition lower_cp :: "nat \<Rightarrow> nat" where
  "lower_cp c =
     (if 65 \<le> c \<and> c \<le> 90 then c + 32
      else if 1040 \<le> c \<and> c \<le> 1071 then c + 32
      else if 1024 \<le> c \<and> c \<le> 1039 then c + 80
      else c)"

definition lower :: "pystr \<Rightarrow> pystr" where
  "lower s = map lower_cp s"

fun startswith :: "pystr \<Rightarrow> pystr \<Rightarrow> bool" where
  "startswith s [] = True"
| "startswith [] (c # w) = False"
| "startswith (x # s) (c # w) = (x = c \<and> startswith s w)"

text \<open>\<^verbatim>\<open>w in s\<close> for strings: \<open>w\<close> occurs in \<open>s\<close> as a contiguous substring.\<close>

fun str_in :: "pystr \<Rightarrow> pystr \<Rightarrow> bool" where
  "str_in w [] = (w = [])"
| "str_in w (x # s) = (startswith (x # s) w \<or> str_in w s)"

text \<open>
  \<^verbatim>\<open>s.count(w)\<close>: the number of non-overlapping occurrences of \<open>w\<close> in \<open>s\<close>, scanning
  from the left; for the empty \<open>w\<close> Python answers \<open>len(s) + 1\<close>.
\<close>

function count_from :: "pystr \<Rightarrow> pystr \<Rightarrow> int" where
  "count_from w [] = 0"
| "count_from w (x # s) =
     (if w = [] then 0
      else if startswith (x # s) w then 1 + count_from w (drop (length w - 1) s)
      else count_from w s)"
  by pat_completeness auto
termination
  by (relation "measure (\<lambda>(w, s). length s)") auto

definition str_count :: "pystr \<Rightarrow> pystr \<Rightarrow> int" where
  "str_count s w = (if w = [] then int (length s) + 1 else count_from w s)"

section \<open>price\_calculator.py\<close>

datatype ServiceCategory = ELECTRICAL | PLUMBING | APPLIANCE | GENERAL | HVAC | EMERGENCY

datatype Urgency = Urgency_NORMAL | Urgency_URGENT | Urgency_EMERGENCY

datatype TimeOfDay = MORNING | DAY | EVENING | NIGHT

datatype District = CENTER | LENINGRADSKY | MOSKOVSKY | OKTYABRSKY | BALTIKA | SVETLOGORSK

record PriceFactors =
  category :: ServiceCategory
  urgency :: Urgency
  time_of_day :: TimeOfDay
  district :: District
  description :: pystr
  estimated_hours :: rat
  complexity :: int
  materials_needed :: bool
  high_voltage :: bool
  height_work :: bool
  outdoors :: bool
  outlets :: int
  switches :: int
  chandeliers :: int
  distance_km :: rat

text \<open>The dataclass constructor with its defaults; only \<open>category\<close> is required.\<close>

definition PriceFactors_default :: "ServiceCategory \<Rightarrow> PriceFactors" where
  "PriceFactors_default c =
     \<lparr>category = c, urgency = Urgency_NORMAL, time_of_day = DAY, district = CENTER,
      description = [], estimated_hours = 1, complexity = 1,
      materials_needed = False, high_voltage = False, height_work = False, outdoors = False,
      outlets = 0, switches = 0, chandeliers = 0, distance_km = 0\<rparr>"

text \<open>
  The price tables. A dictionary is an association list; \<^verbatim>\<open>d.get(k, default)\<close> is
  \<open>dict_get\<close>, and a subscript \<^verbatim>\<open>d[k]\<close>, which raises \<^verbatim>\<open>KeyError\<close> on a missing key,
  is \<open>map_of d k\<close> in the option monad (\<open>None\<close> is the raised exception).
\<close>

definition dict_get :: "('k \<times> 'v) list \<Rightarrow> 'k \<Rightarrow> 'v \<Rightarrow> 'v" where
  "dict_get d k dflt = (case map_of d k of None \<Rightarrow> dflt | Some v \<Rightarrow> v)"

definition BASE_PRICES :: "(ServiceCategory \<times> (string \<times> rat) list) list" where
  "BASE_PRICES =
     [(ELECTRICAL,
         [(''base'', 1500), (''outlet_install'', 350), (''outlet_wiring'', 850),
          (''switch_install'', 300), (''switch_wiring'', 1500), (''chandelier'', 1000),
          (''panel_work'', 3000)]),
      (PLUMBING,
         [(''base'', 1800), (''faucet'', 800), (''sink'', 1500), (''toilet'', 2000),
          (''pipe_repair'', 1200)]),
      (APPLIANCE,
         [(''base'', 2000), (''washing_machine'', 1500), (''dishwasher'', 1800),
          (''refrigerator'', 2500), (''oven'', 2200)]),
      (GENERAL, [(''base'', 1200), (''repair'', 800), (''installation'', 1000)]),
      (HVAC,
         [(''base'', 3000), (''ac_install'', 4000), (''ac_service'', 2000),
          (''ventilation'', 3500)]),
      (EMERGENCY, [(''base'', 2500)])]"

definition URGENCY_MULTIPLIERS :: "(Urgency \<times> rat) list" where
  "URGENCY_MULTIPLIERS =
     [(Urgency_NORMAL, 1), (Urgency_URGENT, 15 / 10), (Urgency_EMERGENCY, 2)]"

definition TIME_MULTIPLIERS :: "(TimeOfDay \<times> rat) list" where
  "TIME_MULTIPLIERS = [(MORNING, 1), (DAY, 1), (EVENING, 12 / 10), (NIGHT, 15 / 10)]"

definition DISTRICT_MULTIPLIERS :: "(District \<times> rat) list" where
  "DISTRICT_MULTIPLIERS =
     [(CENTER, 1), (LENINGRADSKY, 105 / 100), (MOSKOVSKY, 105 / 100),
      (OKTYABRSKY, 105 / 100), (BALTIKA, 11 / 10), (SVETLOGORSK, 12 / 10)]"

definition VOLUME_DISCOUNTS :: "(int \<times> rat) list" where
  "VOLUME_DISCOUNTS = [(21, 20 / 100), (11, 15 / 100), (6, 10 / 100), (3, 5 / 100)]"

subsection \<open>PriceCalculator\<close>

definition get_base_price :: "PriceFactors \<Rightarrow> rat" where
  "get_base_price factors =
     (let category_prices = dict_get BASE_PRICES (category factors) [];
          base = dict_get category_prices ''base'' 1500;
          base = (if 1 < complexity factors
                  then base * (1 + of_int (complexity factors - 1) * (2 / 10)) else base);
          base = (if 1 < estimated_hours factors
                  then base + (estimated_hours factors - 1) * 800 else base);
          base = (if materials_needed factors then base * (115 / 100) else base);
          base = (if high_voltage factors then base * (13 / 10) else base);
          base = (if height_work factors then base * (125 / 100) else base);
          base = (if outdoors factors then base * (12 / 10) else base)
      in base)"

definition calculate_points_price :: "PriceFactors \<Rightarrow> rat option" where
  "calculate_points_price factors =
     (if category factors \<noteq> ELECTRICAL then Some 0
      else do {
        prices \<leftarrow> map_of BASE_PRICES ELECTRICAL;
        total \<leftarrow> Some 0;
        total \<leftarrow>
          (if 0 < outlets factors then do {
             outlet_price \<leftarrow> map_of prices ''outlet_install'';
             outlet_price \<leftarrow>
               (if materials_needed factors
                then do { w \<leftarrow> map_of prices ''outlet_wiring''; Some (outlet_price + w) }
                else Some outlet_price);
             Some (total + outlet_price * of_int (outlets factors))
           } else Some total);
        total \<leftarrow>
          (if 0 < switches factors then do {
             switch_price \<leftarrow> map_of prices ''switch_install'';
             switch_price \<leftarrow>
               (if materials_needed factors
                then do { w \<leftarrow> map_of prices ''switch_wiring''; Some (switch_price + w) }
                else Some switch_price);
             Some (total + switch_price * of_int (switches factors))
           } else Some total);
        total \<leftarrow>
          (if 0 < chandeliers factors then do {
             c \<leftarrow> map_of prices ''chandelier'';
             Some (total + c * of_int (chandeliers factors))
           } else Some total);
        Some total
      })"

text \<open>
  The multipliers dictionary keeps insertion order: urgency, time of day, district,
  distance; a table factor equal to \<open>1.0\<close> is not recorded.
\<close>

definition calculate_multipliers :: "PriceFactors \<Rightarrow> (string \<times> rat) list option" where
  "calculate_multipliers factors = do {
     multipliers \<leftarrow> Some [];
     urgency_mult \<leftarrow> map_of URGENCY_MULTIPLIERS (urgency factors);
     multipliers \<leftarrow> Some (if urgency_mult \<noteq> 1
                          then multipliers @ [(''urgency'', urgency_mult)] else multipliers);
     time_mult \<leftarrow> map_of TIME_MULTIPLIERS (time_of_day factors);
     multipliers \<leftarrow> Some (if time_mult \<noteq> 1
                          then multipliers @ [(''time_of_day'', time_mult)] else multipliers);
     district_mult \<leftarrow> map_of DISTRICT_MULTIPLIERS (district factors);
     multipliers \<leftarrow> Some (if district_mult \<noteq> 1
                          then multipliers @ [(''district'', district_mult)] else multipliers);
     multipliers \<leftarrow> Some (if 10 < distance_km factors
                          then multipliers @
                               [(''distance'', 1 + (distance_km factors - 10) * (2 / 100))]
                          else multipliers);
     Some multipliers
   }"

fun volume_discount_in :: "(int \<times> rat) list \<Rightarrow> int \<Rightarrow> rat" where
  "volume_discount_in [] total_points = 0"
| "volume_discount_in ((min_points, discount) # rest) total_points =
     (if min_points \<le> total_points then discount
      else volume_discount_in rest total_points)"

definition get_volume_discount :: "int \<Rightarrow> rat" where
  "get_volume_discount total_points = volume_discount_in VOLUME_DISCOUNTS total_points"

record InstallationPoints =
  ip_outlets :: int
  ip_switches :: int
  ip_chandeliers :: int
  ip_total_price :: rat

record Breakdown =
  base_service :: rat
  installation_points :: "InstallationPoints option"
  materials_included :: bool

definition get_breakdown :: "PriceFactors \<Rightarrow> rat \<Rightarrow> rat \<Rightarrow> Breakdown" where
  "get_breakdown factors base points =
     \<lparr>base_service = py_round base 2,
      installation_points =
        (if 0 < points
         then Some \<lparr>ip_outlets = outlets factors, ip_switches = switches factors,
                    ip_chandeliers = chandeliers factors, ip_total_price = py_round points 2\<rparr>
         else None),
      materials_included = materials_needed factors\<rparr>"

record Quote =
  base_price :: rat
  points_price :: rat
  subtotal :: rat
  total_price :: rat
  discount_percent :: rat
  discount_amount :: rat
  multipliers :: "(string \<times> rat) list"
  breakdown :: Breakdown

text \<open>The loop \<^verbatim>\<open>for name, mult in multipliers.items(): price *= mult\<close>.\<close>

fun apply_multipliers :: "rat \<Rightarrow> (string \<times> rat) list \<Rightarrow> rat" where
  "apply_multipliers price [] = price"
| "apply_multipliers price ((name, mult) # rest) = apply_multipliers (price * mult) rest"

definition calculate :: "PriceFactors \<Rightarrow> Quote option" where
  "calculate factors = do {
     let base_price = get_base_price factors;
     points_price \<leftarrow> calculate_points_price factors;
     let subtotal = base_price + points_price;
     multipliers \<leftarrow> calculate_multipliers factors;
     let price_with_multipliers = apply_multipliers subtotal multipliers;
     let total_points = outlets factors + switches factors + chandeliers factors;
     let discount_percent = get_volume_discount total_points;
     let discount_amount = price_with_multipliers * discount_percent;
     let final_price = price_with_multipliers - discount_amount;
     let final_price = py_round final_price (- 1);
     Some \<lparr>base_price = py_round base_price 2,
           points_price = py_round points_price 2,
           subtotal = py_round subtotal 2,
           total_price = py_round final_price 2,
           discount_percent = discount_percent * 100,
           discount_amount = py_round discount_amount 2,
           multipliers = map (\<lambda>(k, v). (k, py_round v 2)) multipliers,
           breakdown = get_breakdown factors base_price points_price\<rparr>
   }"

subsection \<open>Quick templates\<close>

text \<open>
  \<^verbatim>\<open>QUICK_TEMPLATES\<close> is a module-level dictionary of \<^verbatim>\<open>PriceFactors\<close> objects. The objects
  are mutable and shared by every call, so the dictionary is part of the state: a map
  from template name to the current value of the template object. The template
  descriptions are Russian text, written as code points.
\<close>

type_synonym templates = "string \<rightharpoonup> PriceFactors"

definition QUICK_TEMPLATES :: templates where
  "QUICK_TEMPLATES =
     [''outlet_single'' \<mapsto>
        (PriceFactors_default ELECTRICAL)
          \<lparr>description := [1059, 1089, 1090, 1072, 1085, 1086, 1074, 1082, 1072, 32, 1086,
                           1076, 1085, 1086, 1081, 32, 1088, 1086, 1079, 1077, 1090, 1082, 1080],
           outlets := 1, materials_needed := False\<rparr>,
      ''outlet_block_3'' \<mapsto>
        (PriceFactors_default ELECTRICAL)
          \<lparr>description := [1059, 1089, 1090, 1072, 1085, 1086, 1074, 1082, 1072, 32, 1073,
                           1083, 1086, 1082, 1072, 32, 1080, 1079, 32, 51, 32, 1088, 1086,
                           1079, 1077, 1090, 1086, 1082],
           outlets := 3, materials_needed := True\<rparr>,
      ''chandelier'' \<mapsto>
        (PriceFactors_default ELECTRICAL)
          \<lparr>description := [1059, 1089, 1090, 1072, 1085, 1086, 1074, 1082, 1072, 32, 1083,
                           1102, 1089, 1090, 1088, 1099],
           chandeliers := 1\<rparr>,
      ''washing_machine'' \<mapsto>
        (PriceFactors_default APPLIANCE)
          \<lparr>description := [1055, 1086, 1076, 1082, 1083, 1102, 1095, 1077, 1085, 1080, 1077,
                           32, 1089, 1090, 1080, 1088, 1072, 1083, 1100, 1085, 1086, 1081, 32,
                           1084, 1072, 1096, 1080, 1085, 1099],
           estimated_hours := 15 / 10\<rparr>,
      ''ac_install'' \<mapsto>
        (PriceFactors_default HVAC)
          \<lparr>description := [1059, 1089, 1090, 1072, 1085, 1086, 1074, 1082, 1072, 32, 1082,
                           1086, 1085, 1076, 1080, 1094, 1080, 1086, 1085, 1077, 1088, 1072],
           estimated_hours := 3, complexity := 3, height_work := True\<rparr>,
      ''emergency_electrical'' \<mapsto>
        (PriceFactors_default EMERGENCY)
          \<lparr>description := [1069, 1082, 1089, 1090, 1088, 1077, 1085, 1085, 1099, 1081, 32,
                           1074, 1099, 1079, 1086, 1074, 32, 1101, 1083, 1077, 1082, 1090, 1088,
                           1080, 1082, 1072],
           urgency := Urgency_EMERGENCY\<rparr>]"

text \<open>
  One keyword argument of \<^verbatim>\<open>get_quick_price\<close>. A keyword naming a field of the dataclass
  carries a value of the field's type; \<open>Kw_other\<close> is a keyword for which
  \<^verbatim>\<open>hasattr(template, key)\<close> is false, which the loop skips.
\<close>

datatype kwarg =
    Kw_category ServiceCategory
  | Kw_urgency Urgency
  | Kw_time_of_day TimeOfDay
  | Kw_district District
  | Kw_description pystr
  | Kw_estimated_hours rat
  | Kw_complexity int
  | Kw_materials_needed bool
  | Kw_high_voltage bool
  | Kw_height_work bool
  | Kw_outdoors bool
  | Kw_outlets int
  | Kw_switches int
  | Kw_chandeliers int
  | Kw_distance_km rat
  | Kw_other string

fun setattr :: "kwarg \<Rightarrow> PriceFactors \<Rightarrow> PriceFactors" where
  "setattr (Kw_category v) t = t\<lparr>category := v\<rparr>"
| "setattr (Kw_urgency v) t = t\<lparr>urgency := v\<rparr>"
| "setattr (Kw_time_of_day v) t = t\<lparr>time_of_day := v\<rparr>"
| "setattr (Kw_district v) t = t\<lparr>district := v\<rparr>"
| "setattr (Kw_description v) t = t\<lparr>description := v\<rparr>"
| "setattr (Kw_estimated_hours v) t = t\<lparr>estimated_hours := v\<rparr>"
| "setattr (Kw_complexity v) t = t\<lparr>complexity := v\<rparr>"
| "setattr (Kw_materials_needed v) t = t\<lparr>materials_needed := v\<rparr>"
| "setattr (Kw_high_voltage v) t = t\<lparr>high_voltage := v\<rparr>"
| "setattr (Kw_height_work v) t = t\<lparr>height_work := v\<rparr>"
| "setattr (Kw_outdoors v) t = t\<lparr>outdoors := v\<rparr>"
| "setattr (Kw_outlets v) t = t\<lparr>outlets := v\<rparr>"
| "setattr (Kw_switches v) t = t\<lparr>switches := v\<rparr>"
| "setattr (Kw_chandeliers v) t = t\<lparr>chandeliers := v\<rparr>"
| "setattr (Kw_distance_km v) t = t\<lparr>distance_km := v\<rparr>"
| "setattr (Kw_other k) t = t"

datatype py_error = ValueError | KeyError

text \<open>
  The call takes the current templates and returns them as the call leaves them, with
  the result: the overrides are written into the template object that the dictionary
  holds, and that object is priced.
\<close>

definition get_quick_price ::
  "templates \<Rightarrow> string \<Rightarrow> kwarg list \<Rightarrow> templates \<times> (py_error + Quote)" where
  "get_quick_price ts template_name kwargs =
     (case ts template_name of
        None \<Rightarrow> (ts, Inl ValueError)
      | Some template \<Rightarrow>
          (let template = fold setattr kwargs template
           in (ts(template_name \<mapsto> template),
               case calculate template of None \<Rightarrow> Inl KeyError | Some q \<Rightarrow> Inr q)))"

subsection \<open>Estimate from a free-text description\<close>

text \<open>
  The keyword lists of \<^verbatim>\<open>estimate_from_description\<close>, as code points. In the order of
  the source: kran, truba, sliv, santekhnika; stiral'naya, kholodil'nik, tekhnika;
  konditsioner, ventilyatsiya; srochno, seychas, ekstrenno, gorit; rozetk, vyklyuchatel,
  lyustr; shchit, avtomat, 380, tryokhfazn.
\<close>

definition plumbing_words :: "pystr list" where
  "plumbing_words =
     [[1082, 1088, 1072, 1085], [1090, 1088, 1091, 1073, 1072], [1089, 1083, 1080, 1074],
      [1089, 1072, 1085, 1090, 1077, 1093, 1085, 1080, 1082, 1072]]"

definition appliance_words :: "pystr list" where
  "appliance_words =
     [[1089, 1090, 1080, 1088, 1072, 1083, 1100, 1085, 1072, 1103],
      [1093, 1086, 1083, 1086, 1076, 1080, 1083, 1100, 1085, 1080, 1082],
      [1090, 1077, 1093, 1085, 1080, 1082, 1072]]"

definition hvac_words :: "pystr list" where
  "hvac_words =
     [[1082, 1086, 1085, 1076, 1080, 1094, 1080, 1086, 1085, 1077, 1088],
      [1074, 1077, 1085, 1090, 1080, 1083, 1103, 1094, 1080, 1103]]"

definition word_srochno :: pystr where
  "word_srochno = [1089, 1088, 1086, 1095, 1085, 1086]"

definition word_seychas :: pystr where
  "word_seychas = [1089, 1077, 1081, 1095, 1072, 1089]"

definition word_ekstrenno :: pystr where
  "word_ekstrenno = [1101, 1082, 1089, 1090, 1088, 1077, 1085, 1085, 1086]"

definition word_gorit :: pystr where
  "word_gorit = [1075, 1086, 1088, 1080, 1090]"

definition word_rozetk :: pystr where
  "word_rozetk = [1088, 1086, 1079, 1077, 1090, 1082]"

definition word_vyklyuchatel :: pystr where
  "word_vyklyuchatel = [1074, 1099, 1082, 1083, 1102, 1095, 1072, 1090, 1077, 1083]"

definition word_lyustr :: pystr where
  "word_lyustr = [1083, 1102, 1089, 1090, 1088]"

definition panel_words :: "pystr list" where
  "panel_words =
     [[1097, 1080, 1090], [1072, 1074, 1090, 1086, 1084, 1072, 1090], [51, 56, 48],
      [1090, 1088, 1105, 1093, 1092, 1072, 1079, 1085]]"

text \<open>\<^verbatim>\<open>any(word in s for word in words)\<close>\<close>

definition any_word_in :: "pystr list \<Rightarrow> pystr \<Rightarrow> bool" where
  "any_word_in words s = list_ex (\<lambda>word. str_in word s) words"

text \<open>
  The local variable \<^verbatim>\<open>factors\<close> that \<^verbatim>\<open>estimate_from_description\<close> builds from the
  description and the category hint, before it prices it.
\<close>

definition estimate_factors :: "pystr \<Rightarrow> pystr \<Rightarrow> PriceFactors" where
  "estimate_factors descr category_hint =
     (let desc_lower = lower descr;
          service_category =
            (if category_hint = ascii ''plumbing'' \<or> any_word_in plumbing_words desc_lower
             then PLUMBING
             else if category_hint = ascii ''appliance'' \<or> any_word_in appliance_words desc_lower
             then APPLIANCE
             else if category_hint = ascii ''hvac'' \<or> any_word_in hvac_words desc_lower
             then HVAC
             else ELECTRICAL);
          urgency =
            (if any_word_in [word_srochno, word_seychas, word_ekstrenno, word_gorit] desc_lower
             then (if str_in word_ekstrenno desc_lower \<or> str_in word_gorit desc_lower
                   then Urgency_EMERGENCY else Urgency_URGENT)
             else Urgency_NORMAL);
          outlets = str_count desc_lower word_rozetk;
          switches = str_count desc_lower word_vyklyuchatel;
          chandeliers = str_count desc_lower word_lyustr;
          complexity =
            (if 200 < length descr then 3 else if 100 < length descr then 2 else 1);
          panel = any_word_in panel_words desc_lower;
          complexity = (if panel then max complexity 4 else complexity);
          high_voltage = panel;
          estimated_hours = (if 5 < outlets + switches then 2 else 1);
          estimated_hours = (if 3 \<le> complexity then estimated_hours + 1 else estimated_hours)
      in (PriceFactors_default service_category)
           \<lparr>description := descr, urgency := urgency, complexity := complexity,
            estimated_hours := estimated_hours, outlets := outlets, switches := switches,
            chandeliers := chandeliers, high_voltage := high_voltage,
            materials_needed := (urgency = Urgency_NORMAL)\<rparr>)"

definition estimate_from_description :: "pystr \<Rightarrow> pystr \<Rightarrow> Quote option" where
  "estimate_from_description descr category_hint =
     calculate (estimate_factors descr category_hint)"

section \<open>main.py\<close>

subsection \<open>Fee split\<close>

record Fees =
  total :: rat
  payment_gateway_fee :: rat
  platform_commission :: rat
  master_earnings :: rat

definition calculate_platform_fee :: "rat \<Rightarrow> Fees" where
  "calculate_platform_fee amount =
     (let gateway = amount * (2 / 100);
          remaining = amount - gateway;
          commission = remaining * (25 / 100);
          earnings = remaining - commission
      in \<lparr>total = amount,
          payment_gateway_fee = py_round gateway 2,
          platform_commission = py_round commission 2,
          master_earnings = py_round earnings 2\<rparr>)"

subsection \<open>The database\<close>

text \<open>
  The SQLite tables \<^verbatim>\<open>masters\<close>, \<^verbatim>\<open>jobs\<close> and \<^verbatim>\<open>transactions\<close> are lists of rows in
  insertion order; a nullable column is an \<open>option\<close>, a \<^verbatim>\<open>BOOLEAN\<close> column a \<open>bool\<close>,
  a \<^verbatim>\<open>TIMESTAMP\<close> a number. Each column is named after its table and its SQL name.
  The \<^verbatim>\<open>FOREIGN KEY\<close> clauses are not modelled as constraints: the connections never
  switch foreign key enforcement on, so SQLite does not check them.
\<close>

record master_row =
  master_id :: int
  master_full_name :: pystr
  master_phone :: pystr
  master_specializations :: pystr
  master_city :: pystr
  master_preferred_channel :: pystr
  master_rating :: rat
  master_is_active :: bool
  master_terminal_active :: bool
  master_created_at :: nat

record job_row =
  job_id :: int
  job_client_name :: pystr
  job_client_phone :: pystr
  job_category :: pystr
  job_problem_description :: pystr
  job_address :: pystr
  job_estimated_price :: "rat option"
  job_status :: pystr
  job_master_id :: "int option"
  job_created_at :: nat
  job_master_departed_at :: "nat option"
  job_master_arrived_at :: "nat option"
  job_client_phone_revealed :: bool
  job_master_location_lat :: "rat option"
  job_master_location_lon :: "rat option"
  job_route_screenshot_url :: "pystr option"
  job_google_calendar_event_id :: "pystr option"
  job_google_task_id :: "pystr option"

record transaction_row =
  transaction_id :: int
  transaction_job_id :: int
  transaction_amount :: rat
  transaction_payment_method :: pystr
  transaction_platform_fee :: "rat option"
  transaction_master_earnings :: "rat option"
  transaction_status :: pystr
  transaction_created_at :: nat

text \<open>
  \<open>seq_masters\<close>, \<open>seq_jobs\<close> and \<open>seq_transactions\<close> are the \<^verbatim>\<open>sqlite_sequence\<close> entries
  of the three \<^verbatim>\<open>AUTOINCREMENT\<close> keys: the largest row id each table has ever used.
\<close>

record db =
  masters :: "master_row list"
  jobs :: "job_row list"
  transactions :: "transaction_row list"
  seq_masters :: int
  seq_jobs :: int
  seq_transactions :: int

definition empty_db :: db where
  "empty_db = \<lparr>masters = [], jobs = [], transactions = [],
                seq_masters = 0, seq_jobs = 0, seq_transactions = 0\<rparr>"

text \<open>
  An \<^verbatim>\<open>INTEGER PRIMARY KEY AUTOINCREMENT\<close> column gets one more than the largest id the
  table holds or has ever used.
\<close>

definition next_rowid :: "int \<Rightarrow> int list \<Rightarrow> int" where
  "next_rowid seq ids = max seq (fold max ids 0) + 1"

text \<open>
  \<^verbatim>\<open>UPDATE t SET ... WHERE cond\<close>: every row that satisfies the condition is rewritten;
  \<^verbatim>\<open>cursor.rowcount\<close> is the number of rows the condition matched.
\<close>

definition sql_update :: "('r \<Rightarrow> bool) \<Rightarrow> ('r \<Rightarrow> 'r) \<Rightarrow> 'r list \<Rightarrow> 'r list" where
  "sql_update cond upd rows = map (\<lambda>r. if cond r then upd r else r) rows"

definition rowcount :: "('r \<Rightarrow> bool) \<Rightarrow> 'r list \<Rightarrow> nat" where
  "rowcount cond rows = length (filter cond rows)"

text \<open>
  What a handler gives back: an error (the transaction is not committed and the database
  stays as it was), or the committed database with the JSON response. The Russian
  \<^verbatim>\<open>detail\<close> and \<^verbatim>\<open>message\<close> texts are left out. \<open>RequestValidationError\<close> is FastAPI's
  rejection of a body that does not fit the handler's pydantic model.
\<close>

datatype error = HTTPException nat | RequestValidationError

datatype response =
    Master_registered int
  | Terminal_activated int
  | Terminal_status bool
  | Job_assigned
  | Status_updated pystr
  | Request_accepted int rat "int option"
  | Payment_accepted int Fees
  | Departed pystr
  | Arrived pystr pystr

type_synonym result = "error + db \<times> response"

definition status_names :: "pystr list" where
  "status_names =
     [ascii ''pending'', ascii ''accepted'', ascii ''in_progress'', ascii ''completed'',
      ascii ''cancelled'']"

subsection \<open>Masters\<close>

text \<open>
  \<^verbatim>\<open>json.dumps\<close> of a list of strings, with the default \<^verbatim>\<open>ensure_ascii=True\<close>: the
  quote and the backslash are escaped, and so is every code point outside the printable
  ASCII range (a code point above U+FFFF as a surrogate pair).
\<close>

definition hex_digit :: "nat \<Rightarrow> nat" where
  "hex_digit d = (if d < 10 then 48 + d else 87 + d)"

definition u_escape :: "nat \<Rightarrow> pystr" where
  "u_escape n =
     [92, 117, hex_digit (n div 4096 mod 16), hex_digit (n div 256 mod 16),
      hex_digit (n div 16 mod 16), hex_digit (n mod 16)]"

definition json_escape :: "nat \<Rightarrow> pystr" where
  "json_escape c =
     (if c = 34 then [92, 34]
      else if c = 92 then [92, 92]
      else if c = 10 then [92, 110]
      else if c = 13 then [92, 114]
      else if c = 9 then [92, 116]
      else if c = 12 then [92, 102]
      else if c = 8 then [92, 98]
      else if 32 \<le> c \<and> c \<le> 126 then [c]
      else if c < 65536 then u_escape c
      else u_escape (55296 + (c - 65536) div 1024 mod 1024)
           @ u_escape (56320 + (c - 65536) mod 1024))"

definition json_string :: "pystr \<Rightarrow> pystr" where
  "json_string s = [34] @ concat (map json_escape s) @ [34]"

fun join :: "pystr \<Rightarrow> pystr list \<Rightarrow> pystr" where
  "join sep [] = []"
| "join sep [x] = x"
| "join sep (x # y # ys) = x @ sep @ join sep (y # ys)"

definition json_dumps :: "pystr list \<Rightarrow> pystr" where
  "json_dumps xs = [91] @ join [44, 32] (map json_string xs) @ [93]"

text \<open>
  SQLite's \<^verbatim>\<open>LIKE\<close>: \<^verbatim>\<open>%\<close> matches any run of characters, \<^verbatim>\<open>_\<close> any one character, and
  any other character matches itself, ASCII letters without regard to case.
\<close>

definition ascii_fold :: "nat \<Rightarrow> nat" where
  "ascii_fold c = (if 65 \<le> c \<and> c \<le> 90 then c + 32 else c)"

fun like :: "pystr \<Rightarrow> pystr \<Rightarrow> bool" where
  "like [] s = (s = [])"
| "like (p # ps) [] = (p = 37 \<and> like ps [])"
| "like (p # ps) (c # s) =
     (if p = 37 then like ps (c # s) \<or> like (p # ps) s
      else (p = 95 \<or> ascii_fold p = ascii_fold c) \<and> like ps s)"

record MasterRegister =
  reg_full_name :: pystr
  reg_phone :: pystr
  reg_specializations :: "pystr list"
  reg_city :: pystr
  reg_preferred_channel :: pystr

text \<open>The pattern \<^verbatim>\<open>^\+\d{10,15}$\<close>, with \<^verbatim>\<open>\d\<close> read as an ASCII digit.\<close>

definition phone_ok :: "pystr \<Rightarrow> bool" where
  "phone_ok p =
     (case p of
        [] \<Rightarrow> False
      | c # ds \<Rightarrow> c = 43 \<and> 10 \<le> length ds \<and> length ds \<le> 15
                 \<and> list_all (\<lambda>d. 48 \<le> d \<and> d \<le> 57) ds)"

definition MasterRegister_ok :: "MasterRegister \<Rightarrow> bool" where
  "MasterRegister_ok m =
     (2 \<le> length (reg_full_name m) \<and> length (reg_full_name m) \<le> 100
      \<and> phone_ok (reg_phone m)
      \<and> 1 \<le> length (reg_specializations m)
      \<and> 2 \<le> length (reg_city m) \<and> length (reg_city m) \<le> 50)"

text \<open>
  The \<^verbatim>\<open>UNIQUE\<close> constraint on \<^verbatim>\<open>phone\<close> makes the insert of a known phone raise
  \<^verbatim>\<open>IntegrityError\<close>, which the handler turns into status 400.
\<close>

definition register_master :: "db \<Rightarrow> nat \<Rightarrow> MasterRegister \<Rightarrow> result" where
  "register_master s now m =
     (if \<not> MasterRegister_ok m then Inl RequestValidationError
      else if reg_phone m \<in> set (map master_phone (masters s)) then Inl (HTTPException 400)
      else
        (let new_id = next_rowid (seq_masters s) (map master_id (masters s));
             row = \<lparr>master_id = new_id,
                    master_full_name = reg_full_name m,
                    master_phone = reg_phone m,
                    master_specializations = json_dumps (reg_specializations m),
                    master_city = reg_city m,
                    master_preferred_channel = reg_preferred_channel m,
                    master_rating = 5,
                    master_is_active = True,
                    master_terminal_active = False,
                    master_created_at = now\<rparr>
         in Inr (s\<lparr>masters := masters s @ [row], seq_masters := new_id\<rparr>,
                 Master_registered new_id)))"

definition activate_terminal :: "db \<Rightarrow> int \<Rightarrow> result" where
  "activate_terminal s mid =
     (if rowcount (\<lambda>m. master_id m = mid) (masters s) = 0 then Inl (HTTPException 404)
      else Inr (s\<lparr>masters := sql_update (\<lambda>m. master_id m = mid)
                                 (\<lambda>m. m\<lparr>master_terminal_active := True\<rparr>) (masters s)\<rparr>,
                Terminal_activated mid))"

text \<open>
  \<^verbatim>\<open>data.get('terminal_active', False)\<close>: the argument is the truth value of the field,
  \<open>None\<close> when the body has no such field.
\<close>

definition update_terminal_status :: "db \<Rightarrow> int \<Rightarrow> bool option \<Rightarrow> result" where
  "update_terminal_status s mid data =
     (let terminal_active = (case data of None \<Rightarrow> False | Some b \<Rightarrow> b)
      in Inr (s\<lparr>masters := sql_update (\<lambda>m. master_id m = mid)
                               (\<lambda>m. m\<lparr>master_terminal_active := terminal_active\<rparr>) (masters s)\<rparr>,
              Terminal_status terminal_active))"

text \<open>
  \<^verbatim>\<open>ORDER BY rating DESC LIMIT 1\<close> leaves the choice among equally rated masters to
  SQLite; here the earliest such row of the table is taken.
\<close>

definition find_available_master :: "db \<Rightarrow> pystr \<Rightarrow> pystr \<Rightarrow> int option" where
  "find_available_master s cat city =
     (case filter (\<lambda>m. master_is_active m \<and> master_terminal_active m \<and> master_city m = city
                       \<and> like ([37] @ cat @ [37]) (master_specializations m)) (masters s) of
        [] \<Rightarrow> None
      | r # rs \<Rightarrow>
          Some (master_id
                  (fold (\<lambda>m best. if master_rating best < master_rating m then m else best)
                     rs r)))"

subsection \<open>Jobs\<close>

text \<open>
  \<^verbatim>\<open>calculate_pricing\<close>. The first argument is \<^verbatim>\<open>PRICE_CALCULATOR_AVAILABLE\<close>, set when
  the module is loaded. An exception of the calculator is caught and the basic price is
  used instead.
\<close>

definition calculate_pricing :: "bool \<Rightarrow> pystr \<Rightarrow> pystr \<Rightarrow> rat" where
  "calculate_pricing available cat descr =
     (case (if available then estimate_from_description descr cat else None) of
        Some q \<Rightarrow> total_price q
      | None \<Rightarrow>
          (let base_price =
                 dict_get [(ascii ''electrical'', 1500), (ascii ''plumbing'', 1800),
                           (ascii ''appliance'', 2000), (ascii ''general'', 1200)] cat 1500;
               base_price =
                 (if str_in word_srochno (lower descr) \<or> str_in (ascii ''urgent'') (lower descr)
                  then base_price * (13 / 10) else base_price);
               base_price = (if 200 < length descr then base_price * (12 / 10) else base_price)
           in py_round base_price 2))"

record ClientRequest =
  req_name :: pystr
  req_phone :: pystr
  req_category :: pystr
  req_problem_description :: pystr
  req_address :: pystr

definition ClientRequest_ok :: "ClientRequest \<Rightarrow> bool" where
  "ClientRequest_ok r =
     (2 \<le> length (req_name r) \<and> length (req_name r) \<le> 100
      \<and> phone_ok (req_phone r)
      \<and> 10 \<le> length (req_problem_description r)
      \<and> 5 \<le> length (req_address r))"

text \<open>
  \<^verbatim>\<open>process_client_request\<close>. The city of the lookup is the constant "Moskva". The
  status is \<^verbatim>\<open>'accepted' if master_id else 'pending'\<close>: a master id of 0 counts as none
  for the status, and is stored all the same. \<^verbatim>\<open>GOOGLE_SYNC_AVAILABLE\<close> is the constant
  \<^verbatim>\<open>False\<close>, so the calendar synchronisation that it guards, here and on arrival, never
  runs.
\<close>

definition process_client_request :: "bool \<Rightarrow> db \<Rightarrow> nat \<Rightarrow> ClientRequest \<Rightarrow> result" where
  "process_client_request available s now r =
     (if \<not> ClientRequest_ok r then Inl RequestValidationError
      else
        (let estimated_price =
               calculate_pricing available (req_category r) (req_problem_description r);
             master = find_available_master s (req_category r)
                        [1052, 1086, 1089, 1082, 1074, 1072];
             truthy = (case master of None \<Rightarrow> False | Some m \<Rightarrow> m \<noteq> 0);
             new_id = next_rowid (seq_jobs s) (map job_id (jobs s));
             row = \<lparr>job_id = new_id,
                    job_client_name = req_name r,
                    job_client_phone = req_phone r,
                    job_category = req_category r,
                    job_problem_description = req_problem_description r,
                    job_address = req_address r,
                    job_estimated_price = Some estimated_price,
                    job_status = (if truthy then ascii ''accepted'' else ascii ''pending''),
                    job_master_id = master,
                    job_created_at = now,
                    job_master_departed_at = None,
                    job_master_arrived_at = None,
                    job_client_phone_revealed = False,
                    job_master_location_lat = None,
                    job_master_location_lon = None,
                    job_route_screenshot_url = None,
                    job_google_calendar_event_id = None,
                    job_google_task_id = None\<rparr>
         in Inr (s\<lparr>jobs := jobs s @ [row], seq_jobs := new_id\<rparr>,
                 Request_accepted new_id estimated_price (if truthy then master else None))))"

text \<open>\<^verbatim>\<open>POST /api/v1/jobs/{job_id}/assign\<close>; the argument is \<^verbatim>\<open>data.get('master_id')\<close>.\<close>

definition assign_job_to_master :: "db \<Rightarrow> int \<Rightarrow> int option \<Rightarrow> result" where
  "assign_job_to_master s jid mid =
     (if rowcount (\<lambda>j. job_id j = jid \<and> job_status j = ascii ''pending'') (jobs s) = 0
      then Inl (HTTPException 400)
      else Inr (s\<lparr>jobs := sql_update (\<lambda>j. job_id j = jid \<and> job_status j = ascii ''pending'')
                              (\<lambda>j. j\<lparr>job_master_id := mid, job_status := ascii ''accepted''\<rparr>)
                              (jobs s)\<rparr>,
                Job_assigned))"

text \<open>
  \<^verbatim>\<open>PATCH /api/v1/jobs/{job_id}/status\<close>; the argument is \<^verbatim>\<open>data.get('status')\<close>, \<open>None\<close>
  when the body has no status. The handler does not look at \<^verbatim>\<open>cursor.rowcount\<close>.
\<close>

definition update_job_status :: "db \<Rightarrow> int \<Rightarrow> pystr option \<Rightarrow> result" where
  "update_job_status s jid data =
     (case data of
        None \<Rightarrow> Inl (HTTPException 400)
      | Some new_status \<Rightarrow>
          if new_status \<notin> set status_names then Inl (HTTPException 400)
          else Inr (s\<lparr>jobs := sql_update (\<lambda>j. job_id j = jid)
                                  (\<lambda>j. j\<lparr>job_status := new_status\<rparr>) (jobs s)\<rparr>,
                    Status_updated new_status))"

text \<open>
  \<^verbatim>\<open>PATCH /api/v1/terminal/jobs/{master_id}/status/{job_id}\<close>, the second handler of the
  same name. The \<^verbatim>\<open>JobStatusUpdate\<close> model admits the same five names.
\<close>

definition update_job_status_terminal :: "db \<Rightarrow> int \<Rightarrow> int \<Rightarrow> pystr \<Rightarrow> result" where
  "update_job_status_terminal s mid jid new_status =
     (if new_status \<notin> set status_names then Inl RequestValidationError
      else if rowcount (\<lambda>j. job_id j = jid \<and> job_master_id j = Some mid) (jobs s) = 0
      then Inl (HTTPException 404)
      else Inr (s\<lparr>jobs := sql_update (\<lambda>j. job_id j = jid \<and> job_master_id j = Some mid)
                              (\<lambda>j. j\<lparr>job_status := new_status\<rparr>) (jobs s)\<rparr>,
                Status_updated new_status))"

record PaymentProcess =
  pay_job_id :: int
  pay_payment_method :: pystr
  pay_amount :: rat

definition PaymentProcess_ok :: "PaymentProcess \<Rightarrow> bool" where
  "PaymentProcess_ok p =
     (pay_payment_method p \<in> set [ascii ''cash'', ascii ''card'', ascii ''sbp'']
      \<and> 0 < pay_amount p)"

definition process_payment :: "db \<Rightarrow> nat \<Rightarrow> PaymentProcess \<Rightarrow> result" where
  "process_payment s now p =
     (if \<not> PaymentProcess_ok p then Inl RequestValidationError
      else
        (let fees = calculate_platform_fee (pay_amount p);
             new_id = next_rowid (seq_transactions s) (map transaction_id (transactions s));
             row = \<lparr>transaction_id = new_id,
                    transaction_job_id = pay_job_id p,
                    transaction_amount = pay_amount p,
                    transaction_payment_method = pay_payment_method p,
                    transaction_platform_fee = Some (platform_commission fees),
                    transaction_master_earnings = Some (master_earnings fees),
                    transaction_status = ascii ''completed'',
                    transaction_created_at = now\<rparr>
         in Inr (s\<lparr>transactions := transactions s @ [row], seq_transactions := new_id,
                   jobs := sql_update (\<lambda>j. job_id j = pay_job_id p)
                             (\<lambda>j. j\<lparr>job_status := ascii ''completed''\<rparr>) (jobs s)\<rparr>,
                 Payment_accepted new_id fees)))"

record DepartData =
  dep_lat :: "rat option"
  dep_lon :: "rat option"
  dep_route_screenshot_url :: "pystr option"

definition master_depart :: "db \<Rightarrow> nat \<Rightarrow> int \<Rightarrow> DepartData \<Rightarrow> result" where
  "master_depart s now jid data =
     (let route_url = (case dep_route_screenshot_url data of None \<Rightarrow> [] | Some u \<Rightarrow> u)
      in Inr (s\<lparr>jobs := sql_update (\<lambda>j. job_id j = jid)
                            (\<lambda>j. j\<lparr>job_master_departed_at := Some now,
                                   job_master_location_lat := dep_lat data,
                                   job_master_location_lon := dep_lon data,
                                   job_route_screenshot_url := Some route_url,
                                   job_status := ascii ''on-the-way''\<rparr>) (jobs s)\<rparr>,
              Departed route_url))"

definition master_arrive :: "db \<Rightarrow> nat \<Rightarrow> int \<Rightarrow> result" where
  "master_arrive s now jid =
     (case find (\<lambda>j. job_id j = jid) (jobs s) of
        None \<Rightarrow> Inl (HTTPException 404)
      | Some job \<Rightarrow>
          Inr (s\<lparr>jobs := sql_update (\<lambda>j. job_id j = jid)
                             (\<lambda>j. j\<lparr>job_master_arrived_at := Some now,
                                    job_client_phone_revealed := True,
                                    job_status := ascii ''arrived''\<rparr>) (jobs s)\<rparr>,
               Arrived (job_client_phone job) (job_client_name job)))"

subsection \<open>The writing endpoints as one step function\<close>

text \<open>
  Every endpoint of \<^verbatim>\<open>main.py\<close> that executes an \<^verbatim>\<open>INSERT\<close> or an \<^verbatim>\<open>UPDATE\<close>; all the
  others only \<^verbatim>\<open>SELECT\<close>. The bots reach the database through these endpoints.
\<close>

datatype request =
    Register_master MasterRegister
  | Activate_terminal int
  | Update_terminal_status int "bool option"
  | Assign_job_to_master int "int option"
  | Update_job_status int "pystr option"
  | Update_job_status_terminal int int pystr
  | Process_client_request ClientRequest
  | Process_payment PaymentProcess
  | Master_depart int DepartData
  | Master_arrive int

fun handle :: "bool \<Rightarrow> db \<Rightarrow> nat \<Rightarrow> request \<Rightarrow> result" where
  "handle av s now (Register_master m) = register_master s now m"
| "handle av s now (Activate_terminal mid) = activate_terminal s mid"
| "handle av s now (Update_terminal_status mid data) = update_terminal_status s mid data"
| "handle av s now (Assign_job_to_master jid mid) = assign_job_to_master s jid mid"
| "handle av s now (Update_job_status jid data) = update_job_status s jid data"
| "handle av s now (Update_job_status_terminal mid jid st) =
     update_job_status_terminal s mid jid st"
| "handle av s now (Process_client_request r) = process_client_request av s now r"
| "handle av s now (Process_payment p) = process_payment s now p"
| "handle av s now (Master_depart jid data) = master_depart s now jid data"
| "handle av s now (Master_arrive jid) = master_arrive s now jid"

text \<open>The database after a request: as committed, or unchanged after an error.\<close>

definition db_after :: "db \<Rightarrow> result \<Rightarrow> db" where
  "db_after s r = (case r of Inl e \<Rightarrow> s | Inr (s', resp) \<Rightarrow> s')"

fun run :: "bool \<Rightarrow> db \<Rightarrow> (nat \<times> request) list \<Rightarrow> db" where
  "run av s [] = s"
| "run av s ((now, rq) # rest) = run av (db_after s (handle av s now rq)) rest"

subsection \<open>Reading a job, and example data\<close>

text \<open>\<^verbatim>\<open>SELECT client_phone_revealed FROM jobs WHERE id = ?\<close>, false when there is no row.\<close>

definition client_phone_revealed :: "db \<Rightarrow> int \<Rightarrow> bool" where
  "client_phone_revealed s jid =
     (case find (\<lambda>j. job_id j = jid) (jobs s) of
        None \<Rightarrow> False
      | Some j \<Rightarrow> job_client_phone_revealed j)"

text \<open>
  The description of the third example run at the end of \<^verbatim>\<open>price_calculator.py\<close>, cut
  after its ninth word: "Srochno nuzhno ustanovit' 3 rozetki i 2 vyklyuchatelya", 49 code
  points.
\<close>

definition example_description :: pystr where
  "example_description =
     [1057, 1088, 1086, 1095, 1085, 1086, 32, 1085, 1091, 1078, 1085, 1086, 32, 1091, 1089,
      1090, 1072, 1085, 1086, 1074, 1080, 1090, 1100, 32, 51, 32, 1088, 1086, 1079, 1077,
      1090, 1082, 1080, 32, 1080, 32, 50, 32, 1074, 1099, 1082, 1083, 1102, 1095, 1072, 1090,
      1077, 1083, 1103]"

text \<open>A job as \<^verbatim>\<open>process_client_request\<close> stores it when it finds no master.\<close>

definition example_job :: job_row where
  "example_job =
     \<lparr>job_id = 1,
      job_client_name = ascii ''Ivan'',
      job_client_phone = ascii ''+79110000000'',
      job_category = ascii ''electrical'',
      job_problem_description = example_description,
      job_address = ascii ''Lenina 1'',
      job_estimated_price = Some 3220,
      job_status = ascii ''pending'',
      job_master_id = None,
      job_created_at = 0,
      job_master_departed_at = None,
      job_master_arrived_at = None,
      job_client_phone_revealed = False,
      job_master_location_lat = None,
      job_master_location_lon = None,
      job_route_screenshot_url = None,
      job_google_calendar_event_id = None,
      job_google_task_id = None\<rparr>"

definition example_db :: db where
  "example_db = empty_db\<lparr>jobs := [example_job], seq_jobs := 1\<rparr>"



section \<open>Properties of the job lifecycle\<close>

subsection \<open>Updates of a table\<close>

lemma sql_update_map:
  "(\<And>r. cond r \<Longrightarrow> f (upd r) = f r) \<Longrightarrow> map f (sql_update cond upd rows) = map f rows"
  by (simp add: sql_update_def)




lemma find_sql_update:
  assumes "\<And>r. job_id (upd r) = job_id r"
  shows "find (\<lambda>j. job_id j = jid) (sql_update cond upd rows) =
         map_option (\<lambda>r. if cond r then upd r else r) (find (\<lambda>j. job_id j = jid) rows)"
  using assms by (induction rows) (simp_all add: sql_update_def)

lemma find_append_Some:
  "find P xs = Some x \<Longrightarrow> find P (xs @ ys) = Some x"
  by (induction xs) (auto split: if_splits)


subsection \<open>Setting a status\<close>






subsection \<open>Assigning a job\<close>



subsection \<open>The jobs table after each request\<close>

lemma jobs_after_register_master:
  "jobs (db_after s (register_master s now m)) = jobs s"
  by (simp add: db_after_def register_master_def Let_def)

lemma jobs_after_activate_terminal:
  "jobs (db_after s (activate_terminal s mid)) = jobs s"
  by (simp add: db_after_def activate_terminal_def)

lemma jobs_after_update_terminal_status:
  "jobs (db_after s (update_terminal_status s mid data)) = jobs s"
  by (simp add: db_after_def update_terminal_status_def Let_def)

lemma jobs_after_assign_job_to_master:
  "jobs (db_after s (assign_job_to_master s jid mid)) = jobs s
   \<or> jobs (db_after s (assign_job_to_master s jid mid))
       = sql_update (\<lambda>j. job_id j = jid \<and> job_status j = ascii ''pending'')
           (\<lambda>j. j\<lparr>job_master_id := mid, job_status := ascii ''accepted''\<rparr>) (jobs s)"
  by (simp add: db_after_def assign_job_to_master_def)

lemma jobs_after_update_job_status:
  "jobs (db_after s (update_job_status s jid data)) =
     (case data of
        None \<Rightarrow> jobs s
      | Some st \<Rightarrow>
          if st \<in> set status_names
          then sql_update (\<lambda>j. job_id j = jid) (\<lambda>j. j\<lparr>job_status := st\<rparr>) (jobs s)
          else jobs s)"
  by (cases data) (simp_all add: db_after_def update_job_status_def)

lemma jobs_after_update_job_status_terminal:
  "jobs (db_after s (update_job_status_terminal s mid jid st)) = jobs s
   \<or> jobs (db_after s (update_job_status_terminal s mid jid st))
       = sql_update (\<lambda>j. job_id j = jid \<and> job_master_id j = Some mid)
           (\<lambda>j. j\<lparr>job_status := st\<rparr>) (jobs s)"
  by (simp add: db_after_def update_job_status_terminal_def)

lemma jobs_after_process_client_request:
  "jobs (db_after s (process_client_request av s now r)) = jobs s
   \<or> (\<exists>row. jobs (db_after s (process_client_request av s now r)) = jobs s @ [row])"
  by (simp add: db_after_def process_client_request_def Let_def)

lemma jobs_after_process_payment:
  "jobs (db_after s (process_payment s now p)) =
     (if PaymentProcess_ok p
      then sql_update (\<lambda>j. job_id j = pay_job_id p)
             (\<lambda>j. j\<lparr>job_status := ascii ''completed''\<rparr>) (jobs s)
      else jobs s)"
  by (simp add: db_after_def process_payment_def Let_def)

lemma jobs_after_master_depart:
  "jobs (db_after s (master_depart s now jid data)) =
     sql_update (\<lambda>j. job_id j = jid)
       (\<lambda>j. j\<lparr>job_master_departed_at := Some now,
              job_master_location_lat := dep_lat data,
              job_master_location_lon := dep_lon data,
              job_route_screenshot_url :=
                Some (case dep_route_screenshot_url data of None \<Rightarrow> [] | Some u \<Rightarrow> u),
              job_status := ascii ''on-the-way''\<rparr>) (jobs s)"
  by (simp add: db_after_def master_depart_def Let_def)

lemma jobs_after_master_arrive:
  "jobs (db_after s (master_arrive s now jid)) =
     (case find (\<lambda>j. job_id j = jid) (jobs s) of
        None \<Rightarrow> jobs s
      | Some job \<Rightarrow>
          sql_update (\<lambda>j. job_id j = jid)
            (\<lambda>j. j\<lparr>job_master_arrived_at := Some now,
                   job_client_phone_revealed := True,
                   job_status := ascii ''arrived''\<rparr>) (jobs s))"
  by (simp add: db_after_def master_arrive_def split: option.splits)

subsection \<open>Arrival and the reveal flag\<close>

lemma revealed_rows_update:
  assumes "jobs s' = sql_update cond upd (jobs s)"
      and "\<And>r. job_id (upd r) = job_id r"
      and "\<And>r. job_client_phone_revealed r \<Longrightarrow> job_client_phone_revealed (upd r)"
      and "client_phone_revealed s jid"
  shows "client_phone_revealed s' jid"
proof -
  obtain j where j: "find (\<lambda>j. job_id j = jid) (jobs s) = Some j" "job_client_phone_revealed j"
    using assms(4) by (auto simp: client_phone_revealed_def split: option.splits)
  have "find (\<lambda>j. job_id j = jid) (jobs s') = Some (if cond j then upd j else j)"
    unfolding assms(1) find_sql_update[of upd, OF assms(2)] j(1) by simp
  moreover have "job_client_phone_revealed (if cond j then upd j else j)"
    using j(2) assms(3) by simp
  ultimately show ?thesis by (simp add: client_phone_revealed_def)
qed

lemma revealed_rows_append:
  assumes "jobs s' = jobs s @ rows" and "client_phone_revealed s jid"
  shows "client_phone_revealed s' jid"
proof -
  obtain j where j: "find (\<lambda>j. job_id j = jid) (jobs s) = Some j" "job_client_phone_revealed j"
    using assms(2) by (auto simp: client_phone_revealed_def split: option.splits)
  have "find (\<lambda>j. job_id j = jid) (jobs s') = Some j"
    unfolding assms(1) using j(1) by (rule find_append_Some)
  then show ?thesis using j(2) by (simp add: client_phone_revealed_def)
qed

lemma revealed_rows_same:
  "jobs s' = jobs s \<Longrightarrow> client_phone_revealed s jid \<Longrightarrow> client_phone_revealed s' jid"
  by (simp add: client_phone_revealed_def)

lemma revealed_handle:
  assumes r: "client_phone_revealed s jid"
  shows "client_phone_revealed (db_after s (handle av s now rq)) jid"
proof (cases rq)
  case (Register_master m)
  show ?thesis unfolding Register_master handle.simps
    using jobs_after_register_master r by (rule revealed_rows_same)
next
  case (Activate_terminal mid)
  show ?thesis unfolding Activate_terminal handle.simps
    using jobs_after_activate_terminal r by (rule revealed_rows_same)
next
  case (Update_terminal_status mid data)
  show ?thesis unfolding Update_terminal_status handle.simps
    using jobs_after_update_terminal_status r by (rule revealed_rows_same)
next
  case (Assign_job_to_master j mid)
  show ?thesis unfolding Assign_job_to_master handle.simps
    using jobs_after_assign_job_to_master [of s j mid]
  proof
    assume "jobs (db_after s (assign_job_to_master s j mid)) = jobs s"
    then show "client_phone_revealed (db_after s (assign_job_to_master s j mid)) jid"
      using r by (rule revealed_rows_same)
  next
    assume "jobs (db_after s (assign_job_to_master s j mid))
       = sql_update (\<lambda>x. job_id x = j \<and> job_status x = ascii ''pending'')
           (\<lambda>x. x\<lparr>job_master_id := mid, job_status := ascii ''accepted''\<rparr>) (jobs s)"
    then show "client_phone_revealed (db_after s (assign_job_to_master s j mid)) jid"
      by (rule revealed_rows_update) (simp_all add: r)
  qed
next
  case (Update_job_status j data)
  show ?thesis unfolding Update_job_status handle.simps
  proof (cases "\<exists>st. data = Some st \<and> st \<in> set status_names")
    case True
    then obtain st where "data = Some st" "st \<in> set status_names" by blast
    then have "jobs (db_after s (update_job_status s j data))
       = sql_update (\<lambda>x. job_id x = j) (\<lambda>x. x\<lparr>job_status := st\<rparr>) (jobs s)"
      by (simp add: jobs_after_update_job_status)
    then show "client_phone_revealed (db_after s (update_job_status s j data)) jid"
      by (rule revealed_rows_update) (simp_all add: r)
  next
    case False
    then have "jobs (db_after s (update_job_status s j data)) = jobs s"
      by (cases data) (simp_all add: jobs_after_update_job_status)
    then show "client_phone_revealed (db_after s (update_job_status s j data)) jid"
      using r by (rule revealed_rows_same)
  qed
next
  case (Update_job_status_terminal mid j st)
  show ?thesis unfolding Update_job_status_terminal handle.simps
    using jobs_after_update_job_status_terminal [of s mid j st]
  proof
    assume "jobs (db_after s (update_job_status_terminal s mid j st)) = jobs s"
    then show "client_phone_revealed (db_after s (update_job_status_terminal s mid j st)) jid"
      using r by (rule revealed_rows_same)
  next
    assume "jobs (db_after s (update_job_status_terminal s mid j st))
       = sql_update (\<lambda>x. job_id x = j \<and> job_master_id x = Some mid)
           (\<lambda>x. x\<lparr>job_status := st\<rparr>) (jobs s)"
    then show "client_phone_revealed (db_after s (update_job_status_terminal s mid j st)) jid"
      by (rule revealed_rows_update) (simp_all add: r)
  qed
next
  case (Process_client_request cr)
  show ?thesis unfolding Process_client_request handle.simps
    using jobs_after_process_client_request [of s av now cr]
  proof
    assume "jobs (db_after s (process_client_request av s now cr)) = jobs s"
    then show "client_phone_revealed (db_after s (process_client_request av s now cr)) jid"
      using r by (rule revealed_rows_same)
  next
    assume "\<exists>row. jobs (db_after s (process_client_request av s now cr)) = jobs s @ [row]"
    then obtain row where
      "jobs (db_after s (process_client_request av s now cr)) = jobs s @ [row]" ..
    then show "client_phone_revealed (db_after s (process_client_request av s now cr)) jid"
      using r by (rule revealed_rows_append)
  qed
next
  case (Process_payment p)
  show ?thesis unfolding Process_payment handle.simps
  proof (cases "PaymentProcess_ok p")
    case True
    then have "jobs (db_after s (process_payment s now p))
       = sql_update (\<lambda>x. job_id x = pay_job_id p)
           (\<lambda>x. x\<lparr>job_status := ascii ''completed''\<rparr>) (jobs s)"
      by (simp add: jobs_after_process_payment)
    then show "client_phone_revealed (db_after s (process_payment s now p)) jid"
      by (rule revealed_rows_update) (simp_all add: r)
  next
    case False
    then have "jobs (db_after s (process_payment s now p)) = jobs s"
      by (simp add: jobs_after_process_payment)
    then show "client_phone_revealed (db_after s (process_payment s now p)) jid"
      using r by (rule revealed_rows_same)
  qed
next
  case (Master_depart j data)
  show ?thesis unfolding Master_depart handle.simps
    by (rule revealed_rows_update [OF jobs_after_master_depart]) (simp_all add: r)
next
  case (Master_arrive j)
  show ?thesis unfolding Master_arrive handle.simps
  proof (cases "find (\<lambda>x. job_id x = j) (jobs s)")
    case None
    then have "jobs (db_after s (master_arrive s now j)) = jobs s"
      by (simp add: jobs_after_master_arrive)
    then show "client_phone_revealed (db_after s (master_arrive s now j)) jid"
      using r by (rule revealed_rows_same)
  next
    case (Some job)
    then have "jobs (db_after s (master_arrive s now j))
       = sql_update (\<lambda>x. job_id x = j)
            (\<lambda>x. x\<lparr>job_master_arrived_at := Some now,
                   job_client_phone_revealed := True,
                   job_status := ascii ''arrived''\<rparr>) (jobs s)"
      by (simp add: jobs_after_master_arrive)
    then show "client_phone_revealed (db_after s (master_arrive s now j)) jid"
      by (rule revealed_rows_update) (simp_all add: r)
  qed
qed

lemma revealed_run:
  "client_phone_revealed s jid \<Longrightarrow> client_phone_revealed (run av s reqs) jid"
proof (induction reqs arbitrary: s)
  case Nil
  then show ?case by simp
next
  case (Cons a reqs)
  obtain now rq where a: "a = (now, rq)" by (cases a)
  from Cons.prems have "client_phone_revealed (db_after s (handle av s now rq)) jid"
    by (rule revealed_handle)
  then have "client_phone_revealed (run av (db_after s (handle av s now rq)) reqs) jid"
    by (rule Cons.IH)
  then show ?case unfolding a by simp
qed

text \<open>
  C8. For a job that exists, \<^verbatim>\<open>master_arrive\<close> succeeds and leaves the reveal flag set;
  called again on the result, at any later time, it succeeds again with the same
  contact and the flag is still set. From then on the flag stays set along every
  sequence of writing requests: no endpoint clears it.
\<close>

theorem master_arrive_idempotent:
  assumes "find (\<lambda>j. job_id j = jid) (jobs s) = Some j"
  shows "\<exists>s1 s2. master_arrive s t1 jid
                  = Inr (s1, Arrived (job_client_phone j) (job_client_name j))
           \<and> client_phone_revealed s1 jid
           \<and> master_arrive s1 t2 jid
                  = Inr (s2, Arrived (job_client_phone j) (job_client_name j))
           \<and> client_phone_revealed s2 jid
           \<and> (\<forall>av reqs. client_phone_revealed (run av s1 reqs) jid)"
proof -
  define upd where "upd = (\<lambda>t (x::job_row). x\<lparr>job_master_arrived_at := Some t,
                       job_client_phone_revealed := True, job_status := ascii ''arrived''\<rparr>)"
  define s1 where "s1 = s\<lparr>jobs := sql_update (\<lambda>x. job_id x = jid) (upd t1) (jobs s)\<rparr>"
  define s2 where "s2 = s1\<lparr>jobs := sql_update (\<lambda>x. job_id x = jid) (upd t2) (jobs s1)\<rparr>"
  have id: "job_id j = jid" using assms by (auto simp: find_Some_iff)
  have a1: "master_arrive s t1 jid
              = Inr (s1, Arrived (job_client_phone j) (job_client_name j))"
    using assms by (simp add: master_arrive_def s1_def upd_def)
  have keep: "job_id (upd t r) = job_id r" for t r
    by (simp add: upd_def)
  have f1: "find (\<lambda>x. job_id x = jid) (jobs s1) = Some (upd t1 j)"
    unfolding s1_def using assms id
    by (simp add: find_sql_update [of "upd t1", OF keep])
  have r1: "client_phone_revealed s1 jid"
    using f1 by (simp add: client_phone_revealed_def upd_def)
  have a2: "master_arrive s1 t2 jid
              = Inr (s2, Arrived (job_client_phone j) (job_client_name j))"
    using f1 by (simp add: master_arrive_def s2_def upd_def)
  have "client_phone_revealed (db_after s1 (handle True s1 t2 (Master_arrive jid))) jid"
    using r1 by (rule revealed_handle)
  then have r2: "client_phone_revealed s2 jid"
    using a2 by (simp add: db_after_def)
  have "\<forall>av reqs. client_phone_revealed (run av s1 reqs) jid"
    using r1 by (simp add: revealed_run)
  with a1 r1 a2 r2 show ?thesis by blast
qed

theorem master_arrive_idempotent_witness:
  "find (\<lambda>j. job_id j = 1) (jobs example_db) = Some example_job
   \<and> \<not> client_phone_revealed example_db 1
   \<and> (\<exists>s1 s2. master_arrive example_db 5 1
                  = Inr (s1, Arrived (ascii ''+79110000000'') (ascii ''Ivan''))
           \<and> client_phone_revealed s1 1
           \<and> master_arrive s1 9 1
                  = Inr (s2, Arrived (ascii ''+79110000000'') (ascii ''Ivan''))
           \<and> client_phone_revealed s2 1
           \<and> (\<forall>av reqs. client_phone_revealed (run av s1 reqs) 1))"
proof -
  have f: "find (\<lambda>j. job_id j = 1) (jobs example_db) = Some example_job"
    by (simp add: example_db_def example_job_def empty_db_def)
  have n: "\<not> client_phone_revealed example_db 1"
    by (simp add: client_phone_revealed_def example_db_def example_job_def empty_db_def)
  have p: "job_client_phone example_job = ascii ''+79110000000''"
          "job_client_name example_job = ascii ''Ivan''"
    by (simp_all add: example_job_def)
  show ?thesis
    using f n master_arrive_idempotent [OF f, of 5 9] unfolding p by blast
qed

subsection \<open>Payments and the transactions table\<close>







section \<open>Properties of the pricing engine\<close>

subsection \<open>Rounding and the price tables\<close>

lemma round_half_even_of_int: "round_half_even (of_int n) = n"
  by (simp add: round_half_even_def)


lemma py_round_tens: "py_round x (- 1) = 10 * of_int (round_half_even (x / 10))"
  by (simp add: py_round_def)


lemma py_round_cents: "py_round x 2 = of_int (round_half_even (x * 100)) / 100"
  by (simp add: py_round_def)


lemma py_round_cents_of_tens: "py_round (10 * of_int k) 2 = 10 * of_int k"
proof -
  have "(10 * of_int k * 100 :: rat) = of_int (1000 * k)" by simp
  then have "round_half_even (10 * of_int k * 100) = 1000 * k"
    using round_half_even_of_int [of "1000 * k"] by simp
  then show ?thesis by (simp add: py_round_cents)
qed

lemma round_half_even_numeral: "round_half_even (numeral n) = numeral n"
  using round_half_even_of_int [of "numeral n"] by simp

lemma round_half_even_tie_322: "round_half_even (645 / 2) = 322"
proof -
  have "\<lfloor>645 / 2 :: rat\<rfloor> = 322" by (rule floor_unique) simp_all
  then show ?thesis by (simp add: round_half_even_def)
qed

lemma get_volume_discount_tiers:
  "get_volume_discount n =
     (if n \<le> 2 then 0 else if n \<le> 5 then 5 / 100 else if n \<le> 10 then 10 / 100
      else if n \<le> 20 then 15 / 100 else 20 / 100)"
  by (simp add: get_volume_discount_def VOLUME_DISCOUNTS_def)

lemma calculate_points_price_value:
  "calculate_points_price f =
     Some (if category f \<noteq> ELECTRICAL then 0
           else (if 0 < outlets f
                 then (if materials_needed f then 1200 else 350) * of_int (outlets f) else 0)
              + (if 0 < switches f
                 then (if materials_needed f then 1800 else 300) * of_int (switches f) else 0)
              + (if 0 < chandeliers f then 1000 * of_int (chandeliers f) else 0))"
  by (simp add: calculate_points_price_def BASE_PRICES_def)

lemma map_of_URGENCY:
  "map_of URGENCY_MULTIPLIERS u =
     Some (case u of Urgency_NORMAL \<Rightarrow> 1 | Urgency_URGENT \<Rightarrow> 15 / 10 | Urgency_EMERGENCY \<Rightarrow> 2)"
  by (cases u) (simp_all add: URGENCY_MULTIPLIERS_def)

lemma map_of_TIME:
  "map_of TIME_MULTIPLIERS t =
     Some (case t of MORNING \<Rightarrow> 1 | DAY \<Rightarrow> 1 | EVENING \<Rightarrow> 12 / 10 | NIGHT \<Rightarrow> 15 / 10)"
  by (cases t) (simp_all add: TIME_MULTIPLIERS_def)

lemma map_of_DISTRICT:
  "map_of DISTRICT_MULTIPLIERS d =
     Some (case d of CENTER \<Rightarrow> 1 | LENINGRADSKY \<Rightarrow> 105 / 100 | MOSKOVSKY \<Rightarrow> 105 / 100
           | OKTYABRSKY \<Rightarrow> 105 / 100 | BALTIKA \<Rightarrow> 11 / 10 | SVETLOGORSK \<Rightarrow> 12 / 10)"
  by (cases d) (simp_all add: DISTRICT_MULTIPLIERS_def)

lemma calculate_multipliers_total: "\<exists>ms. calculate_multipliers f = Some ms"
  by (simp add: calculate_multipliers_def map_of_URGENCY map_of_TIME map_of_DISTRICT)


lemma calculate_Some:
  assumes "calculate_points_price f = Some pts" and "calculate_multipliers f = Some ms"
  shows "\<exists>q. calculate f = Some q \<and>
     total_price q =
       py_round (apply_multipliers (get_base_price f + pts) ms
                 - apply_multipliers (get_base_price f + pts) ms
                   * get_volume_discount (outlets f + switches f + chandeliers f)) (- 1) \<and>
     discount_percent q = get_volume_discount (outlets f + switches f + chandeliers f) * 100 \<and>
     discount_amount q =
       py_round (apply_multipliers (get_base_price f + pts) ms
                 * get_volume_discount (outlets f + switches f + chandeliers f)) 2"
  using assms
  by (simp add: calculate_def Let_def py_round_tens py_round_cents_of_tens)


subsection \<open>The total price\<close>



text \<open>
  C7. For every item count \<open>n\<close> the volume discount is 0 up to 2, 5 percent from 3 to
  5, 10 percent from 6 to 10, 15 percent from 11 to 20 and 20 percent from 21 on. In
  \<^verbatim>\<open>calculate\<close> the count is outlets plus switches plus chandeliers, and the discount is
  taken once, from the subtotal after all the multipliers.
\<close>

theorem volume_discount_tiers:
  "get_volume_discount n =
     (if n \<le> 2 then 0 else if n \<le> 5 then 5 / 100 else if n \<le> 10 then 10 / 100
      else if n \<le> 20 then 15 / 100 else 20 / 100)
   \<and> (\<exists>q points ms.
        calculate f = Some q
      \<and> calculate_points_price f = Some points
      \<and> calculate_multipliers f = Some ms
      \<and> discount_percent q
          = get_volume_discount (outlets f + switches f + chandeliers f) * 100
      \<and> total_price q =
          py_round (apply_multipliers (get_base_price f + points) ms
                    - apply_multipliers (get_base_price f + points) ms
                      * get_volume_discount (outlets f + switches f + chandeliers f)) (- 1))"
proof -
  obtain points where p: "calculate_points_price f = Some points"
    by (simp add: calculate_points_price_value)
  obtain ms where m: "calculate_multipliers f = Some ms"
    using calculate_multipliers_total by blast
  show ?thesis
    using calculate_Some [OF p m] p m get_volume_discount_tiers [of n] by blast
qed

theorem volume_discount_tiers_witness:
  "get_volume_discount (- 1) = 0 \<and> get_volume_discount 0 = 0 \<and> get_volume_discount 2 = 0
   \<and> get_volume_discount 3 = 5 / 100 \<and> get_volume_discount 5 = 5 / 100
   \<and> get_volume_discount 6 = 10 / 100 \<and> get_volume_discount 10 = 10 / 100
   \<and> get_volume_discount 11 = 15 / 100 \<and> get_volume_discount 20 = 15 / 100
   \<and> get_volume_discount 21 = 20 / 100 \<and> get_volume_discount 500 = 20 / 100"
  using volume_discount_tiers [of "- 1" "PriceFactors_default ELECTRICAL", THEN conjunct1]
        volume_discount_tiers [of 0 "PriceFactors_default ELECTRICAL", THEN conjunct1]
        volume_discount_tiers [of 2 "PriceFactors_default ELECTRICAL", THEN conjunct1]
        volume_discount_tiers [of 3 "PriceFactors_default ELECTRICAL", THEN conjunct1]
        volume_discount_tiers [of 5 "PriceFactors_default ELECTRICAL", THEN conjunct1]
        volume_discount_tiers [of 6 "PriceFactors_default ELECTRICAL", THEN conjunct1]
        volume_discount_tiers [of 10 "PriceFactors_default ELECTRICAL", THEN conjunct1]
        volume_discount_tiers [of 11 "PriceFactors_default ELECTRICAL", THEN conjunct1]
        volume_discount_tiers [of 20 "PriceFactors_default ELECTRICAL", THEN conjunct1]
        volume_discount_tiers [of 21 "PriceFactors_default ELECTRICAL", THEN conjunct1]
        volume_discount_tiers [of 500 "PriceFactors_default ELECTRICAL", THEN conjunct1]
  by simp

subsection \<open>The fee split\<close>



subsection \<open>The estimate of the example description\<close>

lemma example_lower:
  "lower example_description =
     [1089, 1088, 1086, 1095, 1085, 1086, 32, 1085, 1091, 1078, 1085, 1086, 32, 1091, 1089,
      1090, 1072, 1085, 1086, 1074, 1080, 1090, 1100, 32, 51, 32, 1088, 1086, 1079, 1077,
      1090, 1082, 1080, 32, 1080, 32, 50, 32, 1074, 1099, 1082, 1083, 1102, 1095, 1072, 1090,
      1077, 1083, 1103]"
  by (simp add: lower_def lower_cp_def example_description_def)

lemma example_length: "length example_description = 49"
  by (simp add: example_description_def)

lemma example_words:
  "\<not> any_word_in plumbing_words (lower example_description)"
  "\<not> any_word_in appliance_words (lower example_description)"
  "\<not> any_word_in hvac_words (lower example_description)"
  "\<not> any_word_in panel_words (lower example_description)"
  "str_in word_srochno (lower example_description)"
  "\<not> str_in word_seychas (lower example_description)"
  "\<not> str_in word_ekstrenno (lower example_description)"
  "\<not> str_in word_gorit (lower example_description)"
  unfolding example_lower
  by (simp_all add: any_word_in_def plumbing_words_def appliance_words_def hvac_words_def
        panel_words_def word_srochno_def word_seychas_def word_ekstrenno_def word_gorit_def)

lemma example_counts:
  "str_count (lower example_description) word_rozetk = 1"
  "str_count (lower example_description) word_vyklyuchatel = 1"
  "str_count (lower example_description) word_lyustr = 0"
  unfolding example_lower
  by (simp_all add: str_count_def word_rozetk_def word_vyklyuchatel_def word_lyustr_def)

lemma example_urgent:
  "any_word_in [word_srochno, word_seychas, word_ekstrenno, word_gorit]
     (lower example_description)"
  by (simp add: any_word_in_def example_words)

lemma example_factors:
  "estimate_factors example_description (ascii ''electrical'') =
     \<lparr>category = ELECTRICAL, urgency = Urgency_URGENT, time_of_day = DAY, district = CENTER,
      description = example_description, estimated_hours = 1, complexity = 1,
      materials_needed = False, high_voltage = False, height_work = False, outdoors = False,
      outlets = 1, switches = 1, chandeliers = 0, distance_km = 0\<rparr>"
  by (simp add: estimate_factors_def Let_def example_words example_urgent example_counts
        example_length PriceFactors_default_def ascii_def)

lemma example_quotes:
  "\<exists>q. calculate (estimate_factors example_description (ascii ''electrical'')) = Some q
        \<and> total_price q = 3220"
  "\<exists>q. calculate ((estimate_factors example_description (ascii ''electrical''))
                     \<lparr>urgency := Urgency_NORMAL\<rparr>) = Some q
        \<and> total_price q = 2150"
  unfolding example_factors
  by (simp_all add: calculate_def calculate_points_price_value calculate_multipliers_def
        map_of_URGENCY map_of_TIME map_of_DISTRICT get_base_price_def dict_get_def
        BASE_PRICES_def get_volume_discount_tiers py_round_tens py_round_cents
        round_half_even_numeral round_half_even_tie_322 Let_def)

text \<open>
  C3 as the specification words it fails: the estimator counts the occurrences of the
  keywords and does not read the numerals of the text, so the example description gives
  one outlet and one switch, not three and two.
\<close>

theorem estimate_counts_keywords:
  "outlets (estimate_factors example_description (ascii ''electrical'')) = 1
   \<and> switches (estimate_factors example_description (ascii ''electrical'')) = 1
   \<and> \<not> (outlets (estimate_factors example_description (ascii ''electrical'')) = 3
        \<and> switches (estimate_factors example_description (ascii ''electrical'')) = 2)"
  unfolding example_factors by simp

text \<open>
  C3, as the code has it. For the example description with the hint "electrical" the
  estimator keeps the electrical category, classifies the urgency as urgent and not as
  emergency, derives one outlet and one switch, and its total, 3220, is strictly above
  the total, 2150, of the same derived factors with normal urgency.
\<close>

theorem estimate_example:
  "category (estimate_factors example_description (ascii ''electrical'')) = ELECTRICAL
   \<and> urgency (estimate_factors example_description (ascii ''electrical'')) = Urgency_URGENT
   \<and> outlets (estimate_factors example_description (ascii ''electrical'')) = 1
   \<and> switches (estimate_factors example_description (ascii ''electrical'')) = 1
   \<and> (\<exists>q qn.
         estimate_from_description example_description (ascii ''electrical'') = Some q
       \<and> calculate ((estimate_factors example_description (ascii ''electrical''))
                      \<lparr>urgency := Urgency_NORMAL\<rparr>) = Some qn
       \<and> total_price q = 3220 \<and> total_price qn = 2150
       \<and> total_price qn < total_price q)"
proof -
  obtain q where q: "calculate (estimate_factors example_description (ascii ''electrical''))
                       = Some q" "total_price q = 3220"
    using example_quotes(1) by blast
  obtain qn where qn: "calculate ((estimate_factors example_description (ascii ''electrical''))
                     \<lparr>urgency := Urgency_NORMAL\<rparr>) = Some qn" "total_price qn = 2150"
    using example_quotes(2) by blast
  have "total_price qn < total_price q" using q(2) qn(2) by simp
  moreover have
    "category (estimate_factors example_description (ascii ''electrical'')) = ELECTRICAL"
    "urgency (estimate_factors example_description (ascii ''electrical'')) = Urgency_URGENT"
    "outlets (estimate_factors example_description (ascii ''electrical'')) = 1"
    "switches (estimate_factors example_description (ascii ''electrical'')) = 1"
    unfolding example_factors by simp_all
  ultimately show ?thesis
    using q qn unfolding estimate_from_description_def by blast
qed

theorem estimate_example_witness:
  "\<exists>q. estimate_from_description example_description (ascii ''electrical'') = Some q
       \<and> total_price q = 3220"
  using estimate_example by blast

subsection \<open>Quick templates are shared state\<close>

lemma emergency_template:
  "QUICK_TEMPLATES ''emergency_electrical'' =
     Some ((PriceFactors_default EMERGENCY)
             \<lparr>description := [1069, 1082, 1089, 1090, 1088, 1077, 1085, 1085, 1099, 1081, 32,
                              1074, 1099, 1079, 1086, 1074, 32, 1101, 1083, 1077, 1082, 1090,
                              1088, 1080, 1082, 1072],
              urgency := Urgency_EMERGENCY\<rparr>)"
  by (simp add: QUICK_TEMPLATES_def)

lemma emergency_prices:
  "\<exists>q. calculate ((PriceFactors_default EMERGENCY)
             \<lparr>description := d, urgency := Urgency_EMERGENCY\<rparr>) = Some q
        \<and> total_price q = 5000"
  "\<exists>q. calculate ((PriceFactors_default EMERGENCY)
             \<lparr>description := d, urgency := Urgency_EMERGENCY, district := BALTIKA\<rparr>) = Some q
        \<and> total_price q = 5500"
  by (simp_all add: calculate_def calculate_points_price_value calculate_multipliers_def
        map_of_URGENCY map_of_TIME map_of_DISTRICT get_base_price_def dict_get_def
        BASE_PRICES_def get_volume_discount_tiers py_round_tens py_round_cents
        round_half_even_numeral Let_def PriceFactors_default_def)

text \<open>
  C9. \<^verbatim>\<open>get_quick_price\<close> writes its overrides into the shared template: after a call
  with overrides the dictionary holds the overridden template, and a later call for the
  same name with no overrides returns the result of the overridden call. For the
  template "emergency\_electrical" the first call without overrides gives 5000; after a
  call with \<open>district = BALTIKA\<close>, which gives 5500, the same call without overrides
  gives 5500.
\<close>

theorem get_quick_price_mutates_template:
  "(ts name = Some t \<longrightarrow>
      (\<exists>r. get_quick_price ts name kwargs = (ts(name \<mapsto> fold setattr kwargs t), r)
          \<and> get_quick_price (ts(name \<mapsto> fold setattr kwargs t)) name []
              = (ts(name \<mapsto> fold setattr kwargs t), r)))
   \<and> (\<exists>ts1 q0 q1.
         get_quick_price QUICK_TEMPLATES ''emergency_electrical'' []
           = (QUICK_TEMPLATES, Inr q0)
       \<and> total_price q0 = 5000
       \<and> get_quick_price QUICK_TEMPLATES ''emergency_electrical'' [Kw_district BALTIKA]
           = (ts1, Inr q1)
       \<and> total_price q1 = 5500
       \<and> get_quick_price ts1 ''emergency_electrical'' [] = (ts1, Inr q1))"
proof -
  have general: "\<exists>r. get_quick_price ts name kwargs = (ts(name \<mapsto> fold setattr kwargs t), r)
          \<and> get_quick_price (ts(name \<mapsto> fold setattr kwargs t)) name []
              = (ts(name \<mapsto> fold setattr kwargs t), r)"
    if "ts name = Some t" for ts :: templates and name t kwargs
    using that by (simp add: get_quick_price_def Let_def)
  define t0 where "t0 = (PriceFactors_default EMERGENCY)
             \<lparr>description := [1069, 1082, 1089, 1090, 1088, 1077, 1085, 1085, 1099, 1081, 32,
                              1074, 1099, 1079, 1086, 1074, 32, 1101, 1083, 1077, 1082, 1090,
                              1088, 1080, 1082, 1072],
              urgency := Urgency_EMERGENCY\<rparr>"
  have t0: "QUICK_TEMPLATES ''emergency_electrical'' = Some t0"
    unfolding t0_def by (rule emergency_template)
  obtain q0 where q0: "calculate t0 = Some q0" "total_price q0 = 5000"
    unfolding t0_def using emergency_prices(1) by blast
  obtain q1 where q1: "calculate (t0\<lparr>district := BALTIKA\<rparr>) = Some q1" "total_price q1 = 5500"
    unfolding t0_def using emergency_prices(2) by (auto simp: PriceFactors_default_def)
  define ts1 where "ts1 = QUICK_TEMPLATES(''emergency_electrical'' \<mapsto> t0\<lparr>district := BALTIKA\<rparr>)"
  have same: "QUICK_TEMPLATES(''emergency_electrical'' \<mapsto> t0) = QUICK_TEMPLATES"
    using t0 by (rule map_upd_triv)
  have a: "get_quick_price QUICK_TEMPLATES ''emergency_electrical'' []
           = (QUICK_TEMPLATES, Inr q0)"
    using t0 q0(1) same by (simp add: get_quick_price_def)
  have b: "get_quick_price QUICK_TEMPLATES ''emergency_electrical'' [Kw_district BALTIKA]
           = (ts1, Inr q1)"
    using t0 q1(1) by (simp add: get_quick_price_def ts1_def)
  have c: "get_quick_price ts1 ''emergency_electrical'' [] = (ts1, Inr q1)"
    using q1(1) by (simp add: get_quick_price_def ts1_def)
  from general [of ts name t kwargs] a b c q0(2) q1(2) show ?thesis by blast
qed

theorem get_quick_price_mutates_template_witness:
  "QUICK_TEMPLATES ''outlet_single'' \<noteq> None
   \<and> (\<exists>t r. QUICK_TEMPLATES ''outlet_single'' = Some t
        \<and> get_quick_price QUICK_TEMPLATES ''outlet_single'' [Kw_outlets 4]
            = (QUICK_TEMPLATES(''outlet_single'' \<mapsto> t\<lparr>outlets := 4\<rparr>), r)
        \<and> get_quick_price (QUICK_TEMPLATES(''outlet_single'' \<mapsto> t\<lparr>outlets := 4\<rparr>))
             ''outlet_single'' []
            = (QUICK_TEMPLATES(''outlet_single'' \<mapsto> t\<lparr>outlets := 4\<rparr>), r))"
proof -
  obtain t where t: "QUICK_TEMPLATES ''outlet_single'' = Some t"
    by (simp add: QUICK_TEMPLATES_def)
  show ?thesis
    using t get_quick_price_mutates_template
            [of QUICK_TEMPLATES "''outlet_single''" t "[Kw_outlets 4]"]
    by auto
qed

end
